theory Spec2Isabelle
  imports Complex_Main
begin

section \<open>Data model: the result schema as the frontend reads it\<close>

text \<open>
  JavaScript numbers are modelled as exact rationals, JSON strings as \<^typ>\<open>string\<close>,
  and a JSON field that may be absent as an \<^typ>\<open>'a option\<close>. A coordinate is the
  two-element array \<^verbatim>\<open>[x, y]\<close>, read as \<^verbatim>\<open>coord[0]\<close> and \<^verbatim>\<open>coord[1]\<close>.
  The polygon fields \<^verbatim>\<open>id\<close> and \<^verbatim>\<open>type\<close> are called \<open>poly_id\<close> and \<open>poly_type\<close>.
\<close>

type_synonym coord = "rat \<times> rat"

record polygon =
  poly_id :: string
  sheet :: rat
  poly_type :: string
  area_sqft :: rat
  confidence :: rat
  compactness :: rat
  vertex_count :: nat
  review_needed :: bool
  review_reasons :: "string list option"
  coords_pdf :: "coord list option"
  coordinates :: "coord list option"

record sheet_data =
  sheet_number :: rat
  pdf_width :: "rat option"
  pdf_height :: "rat option"
  sheet_polygons :: "polygon list"

record results =
  filename :: string
  polygons :: "polygon list"
  sheets :: "sheet_data list"

section \<open>The JavaScript runtime\<close>

text \<open>Reading a property of \<^verbatim>\<open>undefined\<close>, or calling a method on it, throws.\<close>

datatype render_error = TypeError

text \<open>
  \<^verbatim>\<open>s.replace(pat, rep)\<close> with a string pattern replaces the first occurrence of
  \<open>pat\<close> in \<open>s\<close> and leaves \<open>s\<close> unchanged when there is none.
\<close>

fun js_replace :: "string \<Rightarrow> string \<Rightarrow> string \<Rightarrow> string" where
  "js_replace [] pat rep = (if pat = [] then rep else [])"
| "js_replace (c # cs) pat rep =
     (if take (length pat) (c # cs) = pat then rep @ drop (length pat) (c # cs)
      else c # js_replace cs pat rep)"

section \<open>PlanViewer\<close>

subsection \<open>Surface colours\<close>

record colors =
  fill :: string
  stroke :: string
  label :: string

definition SURFACE_COLORS_pervious :: colors where
  "SURFACE_COLORS_pervious =
     \<lparr>fill = ''rgba(0, 200, 0, 0.3)'', stroke = ''rgb(0, 200, 0)'', label = ''Perv''\<rparr>"

definition SURFACE_COLORS :: "(string \<times> colors) list" where
  "SURFACE_COLORS =
     [(''building'',
         \<lparr>fill = ''rgba(200, 0, 0, 0.4)'', stroke = ''rgb(200, 0, 0)'', label = ''Bldg''\<rparr>),
      (''concrete'',
         \<lparr>fill = ''rgba(128, 128, 128, 0.4)'', stroke = ''rgb(128, 128, 128)'', label = ''Conc''\<rparr>),
      (''asphalt'',
         \<lparr>fill = ''rgba(50, 50, 50, 0.4)'', stroke = ''rgb(50, 50, 50)'', label = ''Asph''\<rparr>),
      (''pervious'', SURFACE_COLORS_pervious),
      (''water'',
         \<lparr>fill = ''rgba(0, 100, 200, 0.4)'', stroke = ''rgb(0, 100, 200)'', label = ''Water''\<rparr>)]"

text \<open>
  A property read \<^verbatim>\<open>SURFACE_COLORS[key]\<close> finds the five own properties of the
  literal and, under any other key, what the literal inherits from
  \<^verbatim>\<open>Object.prototype\<close>: its methods and accessors, under the names listed here. An
  inherited member is a function or an object, so it is truthy, and it has no
  \<open>fill\<close>, \<open>stroke\<close> or \<open>label\<close>: reading one of these gives \<^verbatim>\<open>undefined\<close>.
  Under every other key the read itself gives \<^verbatim>\<open>undefined\<close>.
\<close>

definition Object_prototype_keys :: "string list" where
  "Object_prototype_keys =
     [''constructor'', ''__defineGetter__'', ''__defineSetter__'', ''hasOwnProperty'',
      ''__lookupGetter__'', ''__lookupSetter__'', ''isPrototypeOf'', ''propertyIsEnumerable'',
      ''toString'', ''valueOf'', ''__proto__'', ''toLocaleString'']"

datatype member = Own colors | Inherited

definition SURFACE_COLORS_get :: "string \<Rightarrow> member option" where
  "SURFACE_COLORS_get key =
     (case map_of SURFACE_COLORS key of
        Some c \<Rightarrow> Some (Own c)
      | None \<Rightarrow> if key \<in> set Object_prototype_keys then Some Inherited else None)"

fun member_fill :: "member \<Rightarrow> string option" where
  "member_fill (Own c) = Some (fill c)"
| "member_fill Inherited = None"

fun member_stroke :: "member \<Rightarrow> string option" where
  "member_stroke (Own c) = Some (stroke c)"
| "member_stroke Inherited = None"

fun member_label :: "member \<Rightarrow> string option" where
  "member_label (Own c) = Some (label c)"
| "member_label Inherited = None"

subsection \<open>Component state and coordinate transforms\<close>

record point =
  px :: rat
  py :: rat

record dimensions =
  width :: rat
  height :: rat

record viewer =
  selectedPolygon :: "string option"
  hoveredPolygon :: "string option"
  viewDimensions :: dimensions

text \<open>\<^verbatim>\<open>sheet.pdf_width || 612\<close>: an absent field and the number 0 are falsy.\<close>

definition or_default :: "rat option \<Rightarrow> rat \<Rightarrow> rat" where
  "or_default v d = (case v of None \<Rightarrow> d | Some n \<Rightarrow> if n = 0 then d else n)"

definition pdfWidth :: "sheet_data \<Rightarrow> rat" where
  "pdfWidth sh = or_default (pdf_width sh) 612"

definition pdfHeight :: "sheet_data \<Rightarrow> rat" where
  "pdfHeight sh = or_default (pdf_height sh) 792"

text \<open>
  \<open>mapPdfToScreen\<close> takes the view size as parameters \<open>vw\<close>, \<open>vh\<close> (defaulting to
  the state's \<open>viewDimensions\<close>); \<open>mapScreenToPdf\<close> reads the state.
\<close>

definition mapPdfToScreen :: "sheet_data \<Rightarrow> rat \<Rightarrow> rat \<Rightarrow> rat \<Rightarrow> rat \<Rightarrow> point" where
  "mapPdfToScreen sh vw vh pdfX pdfY =
     (if vw = 0 \<or> vh = 0 then \<lparr>px = 0, py = 0\<rparr>
      else let scaleX = vw / pdfWidth sh; scaleY = vh / pdfHeight sh
           in \<lparr>px = pdfX * scaleX, py = (pdfHeight sh - pdfY) * scaleY\<rparr>)"

definition mapScreenToPdf :: "sheet_data \<Rightarrow> viewer \<Rightarrow> rat \<Rightarrow> rat \<Rightarrow> point" where
  "mapScreenToPdf sh v screenX screenY =
     (if width (viewDimensions v) = 0 \<or> height (viewDimensions v) = 0 then \<lparr>px = 0, py = 0\<rparr>
      else let scaleX = width (viewDimensions v) / pdfWidth sh;
               scaleY = height (viewDimensions v) / pdfHeight sh
           in \<lparr>px = screenX / scaleX, py = pdfHeight sh - (screenY / scaleY)\<rparr>)"

subsection \<open>Drawing a polygon\<close>

text \<open>
  One iteration of the \<^verbatim>\<open>sheet.polygons.forEach\<close> of \<open>drawCanvas\<close>. The colours are
  \<^verbatim>\<open>SURFACE_COLORS[polygon.type] || SURFACE_COLORS.pervious\<close>: the fallback is taken
  only when the read gives \<^verbatim>\<open>undefined\<close>. A polygon with no coordinates or fewer than
  three is skipped. \<open>toScreen\<close> uses the canvas size computed in the same call. The
  record \<open>drawn\<close> holds the path and the values assigned to the context
  (\<open>None\<close> is an assignment of \<^verbatim>\<open>undefined\<close>) and passed as the label text. For a
  hovered, selected or highlighted polygon the fill is \<^verbatim>\<open>colors.fill.replace(...)\<close>,
  which throws when \<^verbatim>\<open>colors.fill\<close> is \<^verbatim>\<open>undefined\<close>.
\<close>

definition polygon_colors :: "polygon \<Rightarrow> member" where
  "polygon_colors polygon =
     (case SURFACE_COLORS_get (poly_type polygon) of
        Some m \<Rightarrow> m
      | None \<Rightarrow> Own SURFACE_COLORS_pervious)"

definition polygon_coords :: "polygon \<Rightarrow> coord list option" where
  "polygon_coords polygon =
     (case coords_pdf polygon of Some cs \<Rightarrow> Some cs | None \<Rightarrow> coordinates polygon)"

definition toScreen :: "sheet_data \<Rightarrow> rat \<Rightarrow> rat \<Rightarrow> coord \<Rightarrow> point" where
  "toScreen sh viewWidth viewHeight c =
     (let scaleX = viewWidth / pdfWidth sh; scaleY = viewHeight / pdfHeight sh
      in \<lparr>px = fst c * scaleX, py = (pdfHeight sh - snd c) * scaleY\<rparr>)"

record drawn =
  path :: "point list"
  fillStyle :: "string option"
  strokeStyle :: "string option"
  lineWidth :: nat
  text_label :: "string option"

definition draw_polygon ::
  "sheet_data \<Rightarrow> rat \<Rightarrow> rat \<Rightarrow> viewer \<Rightarrow> string option \<Rightarrow> polygon \<Rightarrow>
   render_error + drawn option" where
  "draw_polygon sh viewWidth viewHeight v highlightedPolygonId polygon =
     (let isHovered = (hoveredPolygon v = Some (poly_id polygon));
          isSelected = (selectedPolygon v = Some (poly_id polygon));
          isHighlighted = (highlightedPolygonId = Some (poly_id polygon));
          colors = polygon_colors polygon
      in case polygon_coords polygon of
           None \<Rightarrow> Inr None
         | Some coords \<Rightarrow>
             if length coords < 3 then Inr None
             else
               (case (if isHovered \<or> isSelected \<or> isHighlighted then
                        (case member_fill colors of
                           None \<Rightarrow> Inl TypeError
                         | Some f \<Rightarrow>
                             Inr (Some (js_replace (js_replace f ''0.4'' ''0.7'') ''0.3'' ''0.6'')))
                      else Inr (member_fill colors)) of
                  Inl err \<Rightarrow> Inl err
                | Inr style \<Rightarrow>
                    Inr (Some
                      \<lparr>path = map (toScreen sh viewWidth viewHeight) coords,
                       fillStyle = style,
                       strokeStyle =
                         (if isHighlighted then Some ''rgb(255, 165, 0)''
                          else member_stroke colors),
                       lineWidth =
                         (if isHighlighted then 4 else if isSelected then 3
                          else if isHovered then 2 else 1),
                       text_label = member_label colors\<rparr>)))"

text \<open>The whole \<^verbatim>\<open>forEach\<close>: a throw ends it, and the polygons after it are not drawn.\<close>

fun draw_polygons ::
  "sheet_data \<Rightarrow> rat \<Rightarrow> rat \<Rightarrow> viewer \<Rightarrow> string option \<Rightarrow> polygon list \<Rightarrow>
   render_error + drawn option list" where
  "draw_polygons sh viewWidth viewHeight v highlightedPolygonId [] = Inr []"
| "draw_polygons sh viewWidth viewHeight v highlightedPolygonId (polygon # rest) =
     (case draw_polygon sh viewWidth viewHeight v highlightedPolygonId polygon of
        Inl err \<Rightarrow> Inl err
      | Inr d \<Rightarrow>
          (case draw_polygons sh viewWidth viewHeight v highlightedPolygonId rest of
             Inl err \<Rightarrow> Inl err
           | Inr ds \<Rightarrow> Inr (d # ds)))"

subsection \<open>Hit testing and canvas clicks\<close>

text \<open>
  The ray-casting loop \<^verbatim>\<open>for (let i = 0, j = n - 1; i < n; j = i++)\<close>. Both indices
  are in range whenever the body runs. The conjunction \<^verbatim>\<open>&&\<close> evaluates the
  division only when \<open>yi\<close> and \<open>yj\<close> lie on different sides of \<open>y\<close>.
\<close>

function ray_loop :: "rat \<Rightarrow> rat \<Rightarrow> coord list \<Rightarrow> nat \<Rightarrow> nat \<Rightarrow> bool \<Rightarrow> bool" where
  "ray_loop x0 y0 coordsPdf i j inside =
     (if i < length coordsPdf then
        (let xi = fst (coordsPdf ! i); yi = snd (coordsPdf ! i);
             xj = fst (coordsPdf ! j); yj = snd (coordsPdf ! j);
             intersect =
               (if (yi > y0) \<noteq> (yj > y0)
                then x0 < (xj - xi) * (y0 - yi) / (yj - yi) + xi
                else False)
         in ray_loop x0 y0 coordsPdf (i + 1) i (if intersect then \<not> inside else inside))
      else inside)"
  by pat_completeness auto
termination
  by (relation "measure (\<lambda>(x0, y0, coordsPdf, i, j, inside). length coordsPdf - i)") auto

definition isPointInPolygonPdf :: "rat \<Rightarrow> rat \<Rightarrow> coord list \<Rightarrow> bool" where
  "isPointInPolygonPdf x0 y0 coordsPdf =
     ray_loop x0 y0 coordsPdf 0 (length coordsPdf - 1) False"

text \<open>
  The test of the \<^verbatim>\<open>for (const polygon of sheet.polygons)\<close> loops:
  \<^verbatim>\<open>coords && isPointInPolygonPdf(pdfPt.x, pdfPt.y, coords)\<close>.
\<close>

definition hit :: "point \<Rightarrow> polygon \<Rightarrow> bool" where
  "hit pdfPt polygon =
     (case polygon_coords polygon of
        None \<Rightarrow> False
      | Some coords \<Rightarrow> isPointInPolygonPdf (px pdfPt) (py pdfPt) coords)"

text \<open>
  A mouse event carries \<open>clientX\<close> and \<open>clientY\<close>; the canvas, when mounted, has a
  bounding rectangle with \<open>left\<close> and \<open>top\<close>. The handler returns the new component
  state and the list of calls made to the \<open>onPolygonSelect\<close> callback (a property that
  may be absent).
\<close>

record mouse_event =
  clientX :: rat
  clientY :: rat

record rect =
  left :: rat
  top :: rat

fun click_loop :: "point \<Rightarrow> bool \<Rightarrow> viewer \<Rightarrow> polygon list \<Rightarrow> viewer \<times> string option list" where
  "click_loop pdfPt onPolygonSelect v [] = (v\<lparr>selectedPolygon := None\<rparr>, [])"
| "click_loop pdfPt onPolygonSelect v (polygon # rest) =
     (if hit pdfPt polygon then
        (let newSelection =
               (if selectedPolygon v = Some (poly_id polygon) then None
                else Some (poly_id polygon))
         in (v\<lparr>selectedPolygon := newSelection\<rparr>,
             if onPolygonSelect then [newSelection] else []))
      else click_loop pdfPt onPolygonSelect v rest)"

definition handleCanvasClick ::
  "sheet_data \<Rightarrow> bool \<Rightarrow> rect option \<Rightarrow> viewer \<Rightarrow> mouse_event \<Rightarrow> viewer \<times> string option list" where
  "handleCanvasClick sh onPolygonSelect canvas v event =
     (case canvas of
        None \<Rightarrow> (v, [])
      | Some r \<Rightarrow>
          (let screenX = clientX event - left r;
               screenY = clientY event - top r;
               pdfPt = mapScreenToPdf sh v screenX screenY
           in click_loop pdfPt onPolygonSelect v (sheet_polygons sh)))"

subsection \<open>The detail card of the selected polygon\<close>

text \<open>
  \<^verbatim>\<open>selectedData.review_needed && (... selectedData.review_reasons.map(...) ...)\<close>:
  nothing is rendered when the flag is false; when it is true the reasons are listed,
  and calling \<^verbatim>\<open>map\<close> on an absent list throws.
\<close>

definition detail_card_review :: "polygon \<Rightarrow> render_error + string list option" where
  "detail_card_review selectedData =
     (if review_needed selectedData then
        (case review_reasons selectedData of
           None \<Rightarrow> Inl TypeError
         | Some reasons \<Rightarrow> Inr (Some reasons))
      else Inr None)"

section \<open>ResultsPanel\<close>

record panel =
  selectedType :: string
  selectedSheet :: "rat option"
  showReviewOnly :: bool
  highlightedPolygonId :: "string option"

definition filteredPolygons :: "panel \<Rightarrow> results \<Rightarrow> polygon list" where
  "filteredPolygons st res =
     filter (\<lambda>p.
       let sheetMatch = (selectedSheet st = None \<or> Some (sheet p) = selectedSheet st);
           typeMatch = (selectedType st = ''all'' \<or> poly_type p = selectedType st);
           reviewMatch = (\<not> showReviewOnly st \<or> review_needed p)
       in sheetMatch \<and> typeMatch \<and> reviewMatch) (polygons res)"

text \<open>
  \<open>downloadCSV\<close> is a closure of the component, so it can see the filter state; it
  appends one line per element of \<open>polygons\<close>. The conversion of a number inside a
  template literal is the parameter \<open>num\<close>. The function yields the name and the
  content of the downloaded file.
\<close>

definition perimeterType :: "polygon \<Rightarrow> string" where
  "perimeterType poly =
     (if poly_type poly \<in> set [''concrete'', ''asphalt'', ''building'']
      then ''Impervious'' else ''Pervious'')"

definition csv_header :: string where
  "csv_header = ''Polygon ID,Sheet,Surface Type,Area (sqft),Perimeter Type'' @ [CHR 0x0A]"

definition csv_line :: "(rat \<Rightarrow> string) \<Rightarrow> polygon \<Rightarrow> string" where
  "csv_line num poly =
     poly_id poly @ '','' @ num (sheet poly) @ '','' @ poly_type poly @ '','' @
     num (area_sqft poly) @ '','' @ perimeterType poly @ [CHR 0x0A]"

definition downloadCSV :: "(rat \<Rightarrow> string) \<Rightarrow> panel \<Rightarrow> results \<Rightarrow> string \<times> string" where
  "downloadCSV num st res =
     (let csv = fold (\<lambda>poly csv. csv @ csv_line num poly) (polygons res) csv_header
      in (js_replace (filename res) ''.pdf'' '''' @ ''_results.csv'', csv))"

text \<open>
  A polygon card: the review badge, and the list of reasons under
  \<^verbatim>\<open>poly.review_needed && poly.review_reasons && (...)\<close> (an array is truthy, also
  when empty).
\<close>

definition polygon_card_badge :: "polygon \<Rightarrow> bool" where
  "polygon_card_badge poly = review_needed poly"

definition polygon_card_reasons :: "polygon \<Rightarrow> string list option" where
  "polygon_card_reasons poly =
     (if review_needed poly then
        (case review_reasons poly of None \<Rightarrow> None | Some reasons \<Rightarrow> Some reasons)
      else None)"

section \<open>The API client\<close>

text \<open>
  An HTTP request as \<open>axios\<close> sends it, and the settled outcome of awaiting it: a
  rejection (a thrown error with its message) or a response with its \<open>data\<close>. Of a
  browser file the fields \<open>name\<close>, \<open>type\<close> and \<open>size\<close> are \<open>file_name\<close>,
  \<open>file_type\<close> and \<open>file_size\<close>.
\<close>

type_synonym jobid = string

record js_file =
  file_name :: string
  file_type :: string
  file_size :: nat

datatype http_method = GET | POST

record request =
  http_method :: http_method
  url :: string
  form_file :: "js_file option"

datatype js_error = Error string

record 'd response =
  data :: 'd

definition API_BASE_URL :: string where
  "API_BASE_URL = ''http://localhost:8000''"

text \<open>
  \<open>startProcessJob\<close> and \<open>getProcessStatus\<close> each send one request and return
  \<^verbatim>\<open>response.data\<close>; a rejection propagates to the caller. Each is split into the
  request it sends and what it returns once the request has settled.
\<close>

definition startProcessJob_request :: "js_file \<Rightarrow> request" where
  "startProcessJob_request f =
     \<lparr>http_method = POST, url = API_BASE_URL @ ''/api/process/start'', form_file = Some f\<rparr>"

definition startProcessJob :: "js_error + 'd response \<Rightarrow> js_error + 'd" where
  "startProcessJob settled = (case settled of Inl err \<Rightarrow> Inl err | Inr r \<Rightarrow> Inr (data r))"

definition getProcessStatus_request :: "jobid \<Rightarrow> request" where
  "getProcessStatus_request jobId =
     \<lparr>http_method = GET, url = API_BASE_URL @ ''/api/process/status/'' @ jobId,
      form_file = None\<rparr>"

definition getProcessStatus :: "js_error + 'd response \<Rightarrow> js_error + 'd" where
  "getProcessStatus settled = (case settled of Inl err \<Rightarrow> Inl err | Inr r \<Rightarrow> Inr (data r))"

section \<open>App: submission and polling\<close>

text \<open>
  The body of the start response is a record of which the code reads the field
  \<open>job_id\<close>; whatever else it carries is the record's extension. The status
  snapshot is read field by field, each possibly absent.
\<close>

record start_response =
  job_id :: jobid

record snapshot =
  status :: "string option"
  current_sheet :: "nat option"
  total_sheets :: "nat option"
  result :: "results option"
  error :: "string option"

record progress =
  currentSheet :: nat
  totalSheets :: nat
  progress_status :: string

text \<open>
  The state of the component (\<open>results\<close>, \<open>loading\<close>, \<open>error\<close>, \<open>progress\<close>,
  \<open>pollIntervalRef.current\<close>; the first, third and fourth are the fields
  \<open>app_results\<close>, \<open>app_error\<close> and \<open>app_progress\<close>, and the \<open>status\<close> of the
  progress is \<open>progress_status\<close>) together with the browser's table of repeating timers.
  \<open>setInterval\<close> registers the poll of a job and returns a fresh positive identifier,
  the position of the new entry; \<open>clearInterval\<close> empties the entry.
\<close>

record app =
  app_results :: "results option"
  loading :: bool
  app_error :: "string option"
  app_progress :: progress
  pollIntervalRef :: "nat option"
  timers :: "jobid option list"

definition setInterval :: "jobid \<Rightarrow> jobid option list \<Rightarrow> nat \<times> jobid option list" where
  "setInterval jobId tms = (length tms + 1, tms @ [Some jobId])"

definition clearInterval :: "nat \<Rightarrow> jobid option list \<Rightarrow> jobid option list" where
  "clearInterval t tms = (if t = 0 then tms else tms[t - 1 := None])"

text \<open>\<^verbatim>\<open>v || d\<close> on an optional number and on an optional string.\<close>

definition num_or :: "nat option \<Rightarrow> nat \<Rightarrow> nat" where
  "num_or v d = (case v of None \<Rightarrow> d | Some n \<Rightarrow> if n = 0 then d else n)"

definition str_or :: "string option \<Rightarrow> string \<Rightarrow> string" where
  "str_or v d = (case v of None \<Rightarrow> d | Some s \<Rightarrow> if s = [] then d else s)"

text \<open>
  \<^verbatim>\<open>if (pollIntervalRef.current) { clearInterval(pollIntervalRef.current);
  pollIntervalRef.current = null }\<close>
\<close>

definition stop_polling :: "app \<Rightarrow> app" where
  "stop_polling s =
     (case pollIntervalRef s of
        None \<Rightarrow> s
      | Some t \<Rightarrow>
          if t = 0 then s
          else s\<lparr>timers := clearInterval t (timers s), pollIntervalRef := None\<rparr>)"

text \<open>
  \<open>poll\<close>, from the point where \<^verbatim>\<open>await getProcessStatus(jobId)\<close> has settled: the
  \<^verbatim>\<open>try\<close> body on a snapshot, the \<^verbatim>\<open>catch\<close> body on a rejection.
\<close>

definition poll :: "js_error + snapshot \<Rightarrow> app \<Rightarrow> app" where
  "poll settled s =
     (case settled of
        Inr st \<Rightarrow>
          (let s1 = s\<lparr>app_progress :=
                       \<lparr>currentSheet = num_or (current_sheet st) 0,
                        totalSheets = num_or (total_sheets st) 0,
                        progress_status = str_or (status st) ''unknown''\<rparr>\<rparr>
           in if status st = Some ''completed'' then
                (let s2 = stop_polling s1;
                     s3 = (case result st of
                             Some r \<Rightarrow> s2\<lparr>app_results := Some r\<rparr>
                           | None \<Rightarrow> s2)
                 in s3\<lparr>loading := False\<rparr>)
              else if status st = Some ''error'' then
                (stop_polling s1)
                  \<lparr>app_error := Some (str_or (error st) ''Processing failed''),
                   loading := False\<rparr>
              else s1)
      | Inl err \<Rightarrow>
          (stop_polling s)
            \<lparr>app_error := Some ''Lost connection to processing job'', loading := False\<rparr>)"

text \<open>
  \<open>handleFileUpload\<close> up to its \<^verbatim>\<open>await startProcessJob(file)\<close>, and from there on.
  Each part returns the new state and the requests it sends; the second part ends
  with \<^verbatim>\<open>setInterval(poll, 3000)\<close> and the immediate first \<^verbatim>\<open>poll()\<close>.
\<close>

definition handleFileUpload_begin :: "js_file \<Rightarrow> app \<Rightarrow> app \<times> request list" where
  "handleFileUpload_begin f s =
     (s\<lparr>loading := True, app_error := None, app_results := None,
        app_progress := \<lparr>currentSheet = 0, totalSheets = 0, progress_status = ''starting''\<rparr>\<rparr>,
      [startProcessJob_request f])"

definition handleFileUpload_resume ::
  "js_error + 'z start_response_scheme \<Rightarrow> app \<Rightarrow> app \<times> request list" where
  "handleFileUpload_resume started s =
     (case started of
        Inr body \<Rightarrow>
          (let jobId = job_id body;
               s1 = s\<lparr>app_progress := (app_progress s)\<lparr>progress_status := ''running''\<rparr>\<rparr>;
               (t, tms) = setInterval jobId (timers s1)
           in (s1\<lparr>timers := tms, pollIntervalRef := Some t\<rparr>, [getProcessStatus_request jobId]))
      | Inl (Error message) \<Rightarrow>
          (s\<lparr>app_error := Some (if message = [] then ''Failed to start processing job'' else message),
             loading := False\<rparr>, []))"

text \<open>
  What the component shows of its state: the results panel, the error, and the sheet
  counts of the progress line.
\<close>

definition shown_results :: "app \<Rightarrow> results option" where
  "shown_results s = (if loading s then None else app_results s)"


definition shown_error :: "app \<Rightarrow> string option" where
  "shown_error s =
     (case app_error s of None \<Rightarrow> None | Some m \<Rightarrow> if m = [] then None else Some m)"

text \<open>
  The events of the frontend, one per callback that the browser runs: a call of
  \<open>handleFileUpload\<close>, the settling of its start request, a firing of a repeating
  timer (which calls \<open>poll\<close>, sending the status request of that timer's job),
  and the settling of a status request of a job, which resumes that call of \<open>poll\<close>.
  A cleared timer does not fire.
\<close>

datatype 'z event =
    Upload js_file
  | StartSettled "js_error + 'z start_response_scheme response"
  | Tick nat
  | StatusSettled jobid "js_error + snapshot response"

definition tick :: "nat \<Rightarrow> app \<Rightarrow> request list" where
  "tick t s =
     (if t = 0 \<or> length (timers s) < t then []
      else case timers s ! (t - 1) of
             None \<Rightarrow> []
           | Some jobId \<Rightarrow> [getProcessStatus_request jobId])"

fun step :: "app \<Rightarrow> 'z event \<Rightarrow> app \<times> request list" where
  "step s (Upload f) = handleFileUpload_begin f s"
| "step s (StartSettled settled) = handleFileUpload_resume (startProcessJob settled) s"
| "step s (Tick t) = (s, tick t s)"
| "step s (StatusSettled jobId settled) = (poll (getProcessStatus settled) s, [])"

fun run :: "app \<Rightarrow> 'z event list \<Rightarrow> app \<times> request list" where
  "run s [] = (s, [])"
| "run s (e # es) =
     (let (s1, sent) = step s e; (s2, sent_later) = run s1 es
      in (s2, sent @ sent_later))"

section \<open>FileUpload\<close>

text \<open>
  The component keeps \<open>dragActive\<close> and \<open>selectedFile\<close>. A handler returns the new
  state and its effects: an \<open>alert\<close>, or a call of the \<open>onUpload\<close> property (which
  \<open>App\<close> binds to \<open>handleFileUpload\<close>). The file list of a drop or of the file
  input may be absent or empty.
\<close>

record upload_state =
  dragActive :: bool
  selectedFile :: "js_file option"

datatype effect = Alert string | OnUpload js_file

definition handleDrag :: "string \<Rightarrow> upload_state \<Rightarrow> upload_state" where
  "handleDrag etype st =
     (if etype = ''dragenter'' \<or> etype = ''dragover'' then st\<lparr>dragActive := True\<rparr>
      else if etype = ''dragleave'' then st\<lparr>dragActive := False\<rparr>
      else st)"

definition handleFile :: "js_file \<Rightarrow> upload_state \<Rightarrow> upload_state \<times> effect list" where
  "handleFile f st =
     (if file_type f \<noteq> ''application/pdf'' then (st, [Alert ''Please upload a PDF file''])
      else (st\<lparr>selectedFile := Some f\<rparr>, []))"

definition handleDrop :: "js_file list option \<Rightarrow> upload_state \<Rightarrow> upload_state \<times> effect list" where
  "handleDrop files st =
     (let st1 = st\<lparr>dragActive := False\<rparr>
      in case files of
           Some (f # rest) \<Rightarrow> handleFile f st1
         | _ \<Rightarrow> (st1, []))"

definition handleChange :: "js_file list option \<Rightarrow> upload_state \<Rightarrow> upload_state \<times> effect list" where
  "handleChange files st =
     (case files of
        Some (f # rest) \<Rightarrow> handleFile f st
      | _ \<Rightarrow> (st, []))"

definition handleUpload :: "upload_state \<Rightarrow> upload_state \<times> effect list" where
  "handleUpload st =
     (case selectedFile st of
        Some f \<Rightarrow> (st, [OnUpload f])
      | None \<Rightarrow> (st, []))"

text \<open>
  The user's actions on the component. The button that calls \<open>handleUpload\<close> is
  rendered only under \<^verbatim>\<open>selectedFile && !loading\<close>, where \<open>loading\<close> is the property
  passed by \<open>App\<close> at that moment.
\<close>

datatype upload_event =
    Drag string
  | Drop "js_file list option"
  | Change "js_file list option"
  | ClickProcess bool

fun upload_step :: "upload_state \<Rightarrow> upload_event \<Rightarrow> upload_state \<times> effect list" where
  "upload_step st (Drag etype) = (handleDrag etype st, [])"
| "upload_step st (Drop files) = handleDrop files st"
| "upload_step st (Change files) = handleChange files st"
| "upload_step st (ClickProcess loading_prop) =
     (if selectedFile st \<noteq> None \<and> \<not> loading_prop then handleUpload st else (st, []))"

fun upload_run :: "upload_state \<Rightarrow> upload_event list \<Rightarrow> upload_state \<times> effect list" where
  "upload_run st [] = (st, [])"
| "upload_run st (e # es) =
     (let (st1, effs) = upload_step st e; (st2, effs_later) = upload_run st1 es
      in (st2, effs @ effs_later))"

definition upload_initial :: upload_state where
  "upload_initial = \<lparr>dragActive = False, selectedFile = None\<rparr>"

section \<open>Quality Analyzer\<close>

text \<open>The statistics of a sheet that the outlier rule reads.\<close>

record sheet_stats =
  sheet_count :: nat
  sheet_mean :: rat
  sheet_stdev :: rat

text \<open>
  Modelled from the spec: the rule table of the Quality Analyzer (section 4.6), which
  is backend code that is not among the sources. Every rule is evaluated on its own
  and all matching reasons are collected in the order of the table; the sheet's
  polygon count, mean area and standard deviation are given.
\<close>

definition quality_reasons :: "sheet_stats \<Rightarrow> polygon \<Rightarrow> string list" where
  "quality_reasons stats p =
     (if area_sqft p < 100 then [''very small area''] else []) @
     (if area_sqft p > 50000 then [''very large area''] else []) @
     (if compactness p < 15 / 100 then [''irregular shape''] else []) @
     (if vertex_count p > 50 then [''complex polygon''] else []) @
     (if sheet_count stats \<ge> 10 \<and> \<bar>area_sqft p - sheet_mean stats\<bar> > 3 * sheet_stdev stats
      then [''statistical outlier''] else [])"

text \<open>
  Modelled from the spec: the analyzer attaches the reasons to the polygon, and
  \<open>review_needed\<close> is true iff the reason list is non-empty (sections 3 and 4.6).
\<close>

definition quality_analyze :: "sheet_stats \<Rightarrow> polygon \<Rightarrow> polygon" where
  "quality_analyze stats p =
     p\<lparr>review_reasons := Some (quality_reasons stats p),
       review_needed := (quality_reasons stats p \<noteq> [])\<rparr>"

section \<open>Runs of the frontend\<close>

text \<open>
  The initial state of \<open>App\<close> (the arguments of its \<open>useState\<close> and \<open>useRef\<close> calls,
  and no timer registered), and the events that start the polling of a new job: a
  start request that settles with a response.
\<close>

definition app_initial :: app where
  "app_initial =
     \<lparr>app_results = None, loading = False, app_error = None,
      app_progress = \<lparr>currentSheet = 0, totalSheets = 0, progress_status = ''idle''\<rparr>,
      pollIntervalRef = None, timers = []\<rparr>"

fun starts_job :: "'z event \<Rightarrow> bool" where
  "starts_job (StartSettled (Inr r)) = True"
| "starts_job e = False"

text \<open>
  \<open>polled j s\<close>: some live timer of the browser polls job \<open>j\<close>.
  \<open>ref_owns j s\<close>: every live timer that polls \<open>j\<close> is the one held in
  \<open>pollIntervalRef.current\<close>, which is never the falsy identifier 0.
\<close>

definition polled :: "jobid \<Rightarrow> app \<Rightarrow> bool" where
  "polled j s = (Some j \<in> set (timers s))"

definition ref_owns :: "jobid \<Rightarrow> app \<Rightarrow> bool" where
  "ref_owns j s =
     (pollIntervalRef s \<noteq> Some 0 \<and>
      (\<forall>i < length (timers s). timers s ! i = Some j \<longrightarrow> pollIntervalRef s = Some (i + 1)))"

text \<open>
  Which runs the browser can produce. The button that calls \<open>handleFileUpload\<close> is
  there only while \<open>loading\<close> is false (a file being selected); a timer fires only
  while it is registered and not cleared; a start or status request settles only while
  it is pending, and then is pending no more. \<open>possible s pending es\<close> checks the
  events \<open>es\<close> from the state \<open>s\<close> with the requests \<open>pending\<close>.
\<close>

fun answers :: "'z event \<Rightarrow> request \<Rightarrow> bool" where
  "answers (StartSettled settled) q = (http_method q = POST)"
| "answers (StatusSettled jobId settled) q = (q = getProcessStatus_request jobId)"
| "answers e q = False"

fun settle :: "'z event \<Rightarrow> request list \<Rightarrow> request list" where
  "settle e [] = []"
| "settle e (q # qs) = (if answers e q then qs else q # settle e qs)"

fun enabled :: "app \<Rightarrow> request list \<Rightarrow> 'z event \<Rightarrow> bool" where
  "enabled s pending (Upload f) = (\<not> loading s)"
| "enabled s pending (Tick t) = (tick t s \<noteq> [])"
| "enabled s pending e = list_ex (answers e) pending"

fun possible :: "app \<Rightarrow> request list \<Rightarrow> 'z event list \<Rightarrow> bool" where
  "possible s pending [] = True"
| "possible s pending (e # es) =
     (enabled s pending e \<and>
      possible (fst (step s e)) (settle e pending @ snd (step s e)) es)"

text \<open>\<open>pdf_selected st\<close>: the selected file, if there is one, has the MIME type of a PDF.\<close>

definition pdf_selected :: "upload_state \<Rightarrow> bool" where
  "pdf_selected st =
     (case selectedFile st of None \<Rightarrow> True | Some g \<Rightarrow> file_type g = ''application/pdf'')"

section \<open>Example inputs\<close>

text \<open>
  A sheet of default page size (612 by 792) shown at half scale, with two overlapping
  squares, one of them of a category that is not a documented surface type; the result
  of a job over that sheet; and the number formatting of the values that occur.
\<close>

definition ex_poly1 :: polygon where
  "ex_poly1 =
     \<lparr>poly_id = ''S1-P1'', sheet = 1, poly_type = ''concrete'', area_sqft = 250,
      confidence = 9 / 10, compactness = 3 / 4, vertex_count = 4,
      review_needed = False, review_reasons = Some [],
      coords_pdf = Some [(0, 0), (100, 0), (100, 100), (0, 100)], coordinates = None\<rparr>"

definition ex_poly2 :: polygon where
  "ex_poly2 =
     \<lparr>poly_id = ''S1-P2'', sheet = 1, poly_type = ''gravel'', area_sqft = 60,
      confidence = 1 / 2, compactness = 3 / 4, vertex_count = 4,
      review_needed = False, review_reasons = None,
      coords_pdf = None, coordinates = Some [(50, 50), (150, 50), (150, 150), (50, 150)]\<rparr>"

definition ex_poly3 :: polygon where
  "ex_poly3 = ex_poly2\<lparr>poly_id := ''S1-P3'', poly_type := ''water''\<rparr>"

definition ex_sheet :: sheet_data where
  "ex_sheet =
     \<lparr>sheet_number = 1, pdf_width = None, pdf_height = Some 0,
      sheet_polygons = [ex_poly1, ex_poly2]\<rparr>"

definition ex_viewer :: viewer where
  "ex_viewer =
     \<lparr>selectedPolygon = None, hoveredPolygon = None,
      viewDimensions = \<lparr>width = 306, height = 396\<rparr>\<rparr>"

definition ex_rect :: rect where
  "ex_rect = \<lparr>left = 10, top = 20\<rparr>"

definition ex_click :: mouse_event where
  "ex_click = \<lparr>clientX = 95 / 2, clientY = 757 / 2\<rparr>"

definition ex_results :: results where
  "ex_results =
     \<lparr>filename = ''site.pdf'', polygons = [ex_poly1, ex_poly2, ex_poly3], sheets = [ex_sheet]\<rparr>"

definition ex_panel :: panel where
  "ex_panel =
     \<lparr>selectedType = ''asphalt'', selectedSheet = Some 2, showReviewOnly = True,
      highlightedPolygonId = None\<rparr>"

definition ex_num :: "rat \<Rightarrow> string" where
  "ex_num r = (if r = 1 then ''1'' else if r = 60 then ''60'' else ''250'')"

definition ex_stats :: sheet_stats where
  "ex_stats = \<lparr>sheet_count = 2, sheet_mean = 155, sheet_stdev = 95\<rparr>"

text \<open>The body of a start response, three status snapshots of that job, a PDF file and a
  file that is not one, and the state of \<open>App\<close> once the job is being polled.\<close>

definition ex_body :: start_response where
  "ex_body = \<lparr>job_id = ''job-1''\<rparr>"

definition ex_running :: snapshot where
  "ex_running =
     \<lparr>status = Some ''running'', current_sheet = Some 1, total_sheets = Some 3,
      result = None, error = None\<rparr>"

definition ex_completed :: snapshot where
  "ex_completed =
     \<lparr>status = Some ''completed'', current_sheet = Some 3, total_sheets = Some 3,
      result = Some ex_results, error = None\<rparr>"

definition ex_failed :: snapshot where
  "ex_failed =
     \<lparr>status = Some ''error'', current_sheet = Some 1, total_sheets = Some 3,
      result = None, error = Some ''Poppler not found''\<rparr>"

definition ex_pdf :: js_file where
  "ex_pdf = \<lparr>file_name = ''site.pdf'', file_type = ''application/pdf'', file_size = 52000\<rparr>"

definition ex_png :: js_file where
  "ex_png = \<lparr>file_name = ''site.png'', file_type = ''image/png'', file_size = 900\<rparr>"

definition ex_polling :: app where
  "ex_polling = fst (run app_initial [Upload ex_pdf, StartSettled (Inr \<lparr>data = ex_body\<rparr>)])"

text \<open>
  A polygon whose type is the name of an inherited member; a start response that carries
  a result beside the job identifier; and two runs in which submissions overlap. In
  both, a timer tick sends the second status request of the first job while its first
  is still pending, and both are answered with \<open>completed\<close>. In \<open>ex_overlap\<close> the user
  submits again after the first answer and once more after the late second one, and
  both starts settle. In \<open>ex_late\<close> the user submits after the first answer and that
  start settles before the late answer arrives.
\<close>

definition ex_poly4 :: polygon where
  "ex_poly4 = ex_poly2\<lparr>poly_id := ''S1-P4'', poly_type := ''constructor''\<rparr>"


definition ex_body0 :: start_response where
  "ex_body0 = \<lparr>job_id = ''job-0''\<rparr>"

definition ex_body2 :: start_response where
  "ex_body2 = \<lparr>job_id = ''job-2''\<rparr>"

definition ex_old_results :: results where
  "ex_old_results = ex_results\<lparr>filename := ''old.pdf''\<rparr>"

definition ex_completed0 :: snapshot where
  "ex_completed0 = ex_completed\<lparr>result := Some ex_old_results\<rparr>"

definition ex_overlap :: "unit event list" where
  "ex_overlap =
     [Upload ex_pdf, StartSettled (Inr \<lparr>data = ex_body0\<rparr>), Tick 1,
      StatusSettled ''job-0'' (Inr \<lparr>data = ex_completed0\<rparr>),
      Upload ex_pdf,
      StatusSettled ''job-0'' (Inr \<lparr>data = ex_completed0\<rparr>),
      Upload ex_pdf,
      StartSettled (Inr \<lparr>data = ex_body\<rparr>), StartSettled (Inr \<lparr>data = ex_body2\<rparr>)]"


section \<open>Auxiliary facts\<close>

subsection \<open>Loops of PlanViewer and ResultsPanel\<close>

lemma click_loop_find:
  "click_loop pdfPt cb v ps =
     (case find (hit pdfPt) ps of
        None \<Rightarrow> (v\<lparr>selectedPolygon := None\<rparr>, [])
      | Some p \<Rightarrow>
          (let newSelection =
                 (if selectedPolygon v = Some (poly_id p) then None else Some (poly_id p))
           in (v\<lparr>selectedPolygon := newSelection\<rparr>, if cb then [newSelection] else [])))"
  by (induction ps) simp_all

lemma fold_append_lines:
  "fold (\<lambda>p acc. acc @ f p) ps acc0 = acc0 @ concat (map f ps)"
  by (induction ps arbitrary: acc0) simp_all

lemma polygon_colors_unknown:
  "poly_type p \<notin> {''building'', ''concrete'', ''asphalt'', ''pervious'', ''water''} \<Longrightarrow>
   poly_type p \<notin> set Object_prototype_keys \<Longrightarrow>
   polygon_colors p = Own SURFACE_COLORS_pervious"
  by (simp add: polygon_colors_def SURFACE_COLORS_get_def SURFACE_COLORS_def)

lemma polygon_colors_pervious:
  "polygon_colors (p\<lparr>poly_type := ''pervious''\<rparr>) = Own SURFACE_COLORS_pervious"
  by (simp add: polygon_colors_def SURFACE_COLORS_get_def SURFACE_COLORS_def)

lemma polygon_colors_inherited:
  "poly_type p \<in> set Object_prototype_keys \<Longrightarrow> polygon_colors p = Inherited"
  by (auto simp: polygon_colors_def SURFACE_COLORS_get_def SURFACE_COLORS_def
      Object_prototype_keys_def)

lemma draw_polygon_same_colors:
  assumes "polygon_colors p = polygon_colors q" and "polygon_coords p = polygon_coords q"
    and "poly_id p = poly_id q"
  shows "draw_polygon sh vw vh v hl p = draw_polygon sh vw vh v hl q"
  using assms by (simp add: draw_polygon_def)

text \<open>
  A polygon whose type is neither one of the five keys nor the name of an inherited
  member gets the pervious colours and is drawn as the same polygon of type pervious.
\<close>

lemma pervious_unless_inherited:
  assumes "poly_type p \<notin> {''building'', ''concrete'', ''asphalt'', ''pervious'', ''water''}"
    and "poly_type p \<notin> set Object_prototype_keys"
  shows "polygon_colors p = Own SURFACE_COLORS_pervious \<and>
         draw_polygon sh vw vh v hl p = draw_polygon sh vw vh v hl (p\<lparr>poly_type := ''pervious''\<rparr>)"
proof -
  have pervious: "polygon_colors p = Own SURFACE_COLORS_pervious"
    using assms by (rule polygon_colors_unknown)
  then have "polygon_colors p = polygon_colors (p\<lparr>poly_type := ''pervious''\<rparr>)"
    by (simp add: polygon_colors_pervious)
  moreover have "polygon_coords p = polygon_coords (p\<lparr>poly_type := ''pervious''\<rparr>)"
    by (simp add: polygon_coords_def split: option.splits)
  ultimately have "draw_polygon sh vw vh v hl p =
      draw_polygon sh vw vh v hl (p\<lparr>poly_type := ''pervious''\<rparr>)"
    by (intro draw_polygon_same_colors) simp_all
  with pervious show ?thesis by simp
qed

lemma csv_pervious_outside_impervious:
  "poly_type p \<notin> {''concrete'', ''asphalt'', ''building''} \<Longrightarrow> perimeterType p = ''Pervious''"
  by (simp add: perimeterType_def)

subsection \<open>Timers and the polling reference\<close>

lemma run_append:
  "run s (es1 @ es2) =
     (let (s1, sent1) = run s es1; (s2, sent2) = run s1 es2 in (s2, sent1 @ sent2))"
  by (induction es1 arbitrary: s) (simp_all add: Let_def split: prod.splits)

lemma run_snoc:
  "run s (es @ [e]) =
     (let (s1, sent1) = run s es; (s2, sent2) = step s1 e in (s2, sent1 @ sent2))"
  by (simp add: run_append Let_def split: prod.splits)

lemma stop_polling_fields:
  "app_results (stop_polling s) = app_results s"
  "loading (stop_polling s) = loading s"
  "app_error (stop_polling s) = app_error s"
  "app_progress (stop_polling s) = app_progress s"
  by (simp_all add: stop_polling_def split: option.splits)

lemma polled_nth: "polled j s \<longleftrightarrow> (\<exists>i < length (timers s). timers s ! i = Some j)"
  by (simp add: polled_def in_set_conv_nth)

lemma stop_polling_owned:
  assumes "ref_owns j s"
  shows "\<not> polled j (stop_polling s) \<and> pollIntervalRef (stop_polling s) = None"
proof (cases "pollIntervalRef s")
  case None
  with assms show ?thesis
    by (auto simp: stop_polling_def ref_owns_def polled_nth)
next
  case (Some t)
  with assms have t: "t \<noteq> 0"
    by (auto simp: ref_owns_def)
  have "timers (stop_polling s) ! i \<noteq> Some j" if "i < length (timers s)" for i
  proof (cases "i = t - 1")
    case True
    with Some t that show ?thesis
      by (simp add: stop_polling_def clearInterval_def)
  next
    case False
    with assms Some t that have "timers s ! i \<noteq> Some j"
      by (auto simp: ref_owns_def)
    with False Some t show ?thesis
      by (simp add: stop_polling_def clearInterval_def)
  qed
  moreover have "length (timers (stop_polling s)) = length (timers s)"
    using Some t by (simp add: stop_polling_def clearInterval_def)
  ultimately show ?thesis
    using Some t by (auto simp: polled_nth stop_polling_def)
qed

lemma stop_polling_unpolled:
  assumes "\<not> polled j s"
  shows "\<not> polled j (stop_polling s)"
proof -
  have "set (timers (stop_polling s)) \<subseteq> insert None (set (timers s))"
    using set_update_subset_insert [of "timers s" _ None]
    by (auto simp: stop_polling_def clearInterval_def split: option.splits)
  with assms show ?thesis
    by (auto simp: polled_def)
qed

lemma poll_timers:
  "(timers (poll settled s) = timers s \<and> pollIntervalRef (poll settled s) = pollIntervalRef s) \<or>
   (timers (poll settled s) = timers (stop_polling s) \<and>
    pollIntervalRef (poll settled s) = pollIntervalRef (stop_polling s))"
  by (simp add: poll_def Let_def stop_polling_def split: sum.splits option.splits)

lemma ref_owns_cong:
  "timers s' = timers s \<Longrightarrow> pollIntervalRef s' = pollIntervalRef s \<Longrightarrow>
   ref_owns j s' = ref_owns j s"
  by (simp add: ref_owns_def)

lemma unpolled_ref_owns:
  "\<not> polled j s \<Longrightarrow> pollIntervalRef s \<noteq> Some 0 \<Longrightarrow> ref_owns j s"
  by (auto simp: ref_owns_def polled_nth)

lemma poll_ref_owns:
  assumes "ref_owns j s"
  shows "ref_owns j (poll settled s)"
proof -
  from poll_timers [of settled s] show ?thesis
  proof
    assume "timers (poll settled s) = timers s \<and>
      pollIntervalRef (poll settled s) = pollIntervalRef s"
    with assms show ?thesis
      using ref_owns_cong [of "poll settled s" s j] by simp
  next
    assume same: "timers (poll settled s) = timers (stop_polling s) \<and>
      pollIntervalRef (poll settled s) = pollIntervalRef (stop_polling s)"
    from stop_polling_owned [OF assms]
    have "ref_owns j (stop_polling s)"
      by (simp add: unpolled_ref_owns)
    with same show ?thesis
      using ref_owns_cong [of "poll settled s" "stop_polling s" j] by simp
  qed
qed

lemma poll_unpolled:
  assumes "\<not> polled j s"
  shows "\<not> polled j (poll settled s)"
  using poll_timers [of settled s] assms stop_polling_unpolled [of j s]
  by (auto simp: polled_def)

lemma poll_stops:
  assumes "ref_owns j s"
    and "settled = Inl err \<or>
         (settled = Inr st \<and> (status st = Some ''completed'' \<or> status st = Some ''error''))"
  shows "\<not> polled j (poll settled s) \<and> pollIntervalRef (poll settled s) = None"
proof -
  define s1 where "s1 = s\<lparr>app_progress :=
       \<lparr>currentSheet = num_or (current_sheet st) 0,
        totalSheets = num_or (total_sheets st) 0,
        progress_status = str_or (status st) ''unknown''\<rparr>\<rparr>"
  have "ref_owns j s1"
    using assms(1) by (simp add: s1_def ref_owns_def)
  note a = stop_polling_owned [OF assms(1)] stop_polling_owned [OF this]
  from assms(2) have
    "timers (poll settled s) = timers (stop_polling s) \<and>
       pollIntervalRef (poll settled s) = pollIntervalRef (stop_polling s) \<or>
     timers (poll settled s) = timers (stop_polling s1) \<and>
       pollIntervalRef (poll settled s) = pollIntervalRef (stop_polling s1)"
    by (auto simp: poll_def Let_def s1_def split: option.splits)
  with a show ?thesis
    by (auto simp: polled_def)
qed

lemma step_ref_owns:
  assumes "ref_owns j s" and "\<not> starts_job e"
  shows "ref_owns j (fst (step s e))"
proof (cases e)
  case (Upload f)
  with assms show ?thesis
    by (simp add: handleFileUpload_begin_def ref_owns_def)
next
  case (StartSettled settled)
  with assms(2) obtain m where "settled = Inl (Error m)"
    by (cases settled) (auto intro: js_error.exhaust)
  with StartSettled assms(1) show ?thesis
    by (simp add: startProcessJob_def handleFileUpload_resume_def ref_owns_def)
next
  case (Tick t)
  with assms show ?thesis by simp
next
  case (StatusSettled jobId settled)
  with assms show ?thesis
    by (simp add: poll_ref_owns)
qed

lemma request_neq:
  "startProcessJob_request f \<noteq> getProcessStatus_request j"
  by (simp add: startProcessJob_request_def getProcessStatus_request_def)

lemma getProcessStatus_request_inj:
  "getProcessStatus_request j' = getProcessStatus_request j \<longleftrightarrow> j' = j"
  by (simp add: getProcessStatus_request_def)

lemma tick_unpolled:
  assumes "\<not> polled j s"
  shows "getProcessStatus_request j \<notin> set (tick t s)"
proof (cases "t = 0 \<or> length (timers s) < t")
  case True
  then show ?thesis by (simp add: tick_def)
next
  case False
  then have "t - 1 < length (timers s)" by arith
  with assms have "timers s ! (t - 1) \<noteq> Some j"
    by (auto simp: polled_nth)
  with False show ?thesis
    by (auto simp: tick_def getProcessStatus_request_inj split: option.splits)
qed

lemma step_unpolled:
  assumes "\<not> polled j s" and "\<not> starts_job e"
  shows "\<not> polled j (fst (step s e)) \<and> getProcessStatus_request j \<notin> set (snd (step s e))"
proof (cases e)
  case (Upload f)
  with assms show ?thesis
    using request_neq [of f j]
    by (auto simp: handleFileUpload_begin_def polled_def)
next
  case (StartSettled settled)
  with assms(2) obtain m where "settled = Inl (Error m)"
    by (cases settled) (auto intro: js_error.exhaust)
  with StartSettled assms(1) show ?thesis
    by (simp add: startProcessJob_def handleFileUpload_resume_def polled_def)
next
  case (Tick t)
  with assms show ?thesis by (simp add: tick_unpolled)
next
  case (StatusSettled jobId settled)
  with assms show ?thesis
    by (simp add: poll_unpolled)
qed

lemma run_ref_owns:
  "ref_owns j s \<Longrightarrow> \<forall>e \<in> set es. \<not> starts_job e \<Longrightarrow> ref_owns j (fst (run s es))"
proof (induction es arbitrary: s)
  case Nil
  then show ?case by simp
next
  case (Cons e es)
  then have "ref_owns j (fst (step s e))"
    by (simp add: step_ref_owns)
  with Cons have "ref_owns j (fst (run (fst (step s e)) es))"
    by simp
  then show ?case
    by (simp add: split_beta)
qed

lemma run_unpolled:
  "\<not> polled j s \<Longrightarrow> \<forall>e \<in> set es. \<not> starts_job e \<Longrightarrow>
   \<not> polled j (fst (run s es)) \<and> getProcessStatus_request j \<notin> set (snd (run s es))"
proof (induction es arbitrary: s)
  case Nil
  then show ?case by simp
next
  case (Cons e es)
  then have here: "\<not> polled j (fst (step s e)) \<and>
      getProcessStatus_request j \<notin> set (snd (step s e))"
    by (simp add: step_unpolled)
  with Cons have "\<not> polled j (fst (run (fst (step s e)) es)) \<and>
      getProcessStatus_request j \<notin> set (snd (run (fst (step s e)) es))"
    by simp
  with here show ?case
    by (simp add: split_beta)
qed

lemma start_timers:
  "timers (fst (step s (StartSettled (Inr \<lparr>data = body\<rparr>)))) = timers s @ [Some (job_id body)]"
  "pollIntervalRef (fst (step s (StartSettled (Inr \<lparr>data = body\<rparr>)))) =
     Some (length (timers s) + 1)"
  by (simp_all add: startProcessJob_def handleFileUpload_resume_def setInterval_def Let_def)

lemma start_ref_owns:
  assumes "\<not> polled (job_id body) s"
  shows "ref_owns (job_id body) (fst (step s (StartSettled (Inr \<lparr>data = body\<rparr>))))"
proof -
  have "i = length (timers s)"
    if "i < length (timers s) + 1" "(timers s @ [Some (job_id body)]) ! i = Some (job_id body)"
    for i
  proof (rule ccontr)
    assume "i \<noteq> length (timers s)"
    with that have "i < length (timers s)" "timers s ! i = Some (job_id body)"
      by (simp_all add: nth_append)
    with assms show False
      by (auto simp: polled_nth)
  qed
  then show ?thesis
    unfolding ref_owns_def start_timers by auto
qed

subsection \<open>Runs that end in a stopping poll\<close>

lemma run_Cons_fst: "fst (run s (e # es)) = fst (run (fst (step s e)) es)"
  by (simp add: split_beta)

lemma run_snoc_fst: "fst (run s (es @ [e])) = fst (step (fst (run s es)) e)"
  by (simp add: run_snoc split_beta)

lemma poll_stop_state:
  assumes "ref_owns (job_id body) s0"
    and "\<forall>e \<in> set es1. \<not> starts_job e"
    and "settled = Inl err \<or>
         (settled = Inr \<lparr>data = st\<rparr> \<and> (status st = Some ''completed'' \<or> status st = Some ''error''))"
  shows "\<not> polled (job_id body) (fst (run s0 (es1 @ [StatusSettled j settled]))) \<and>
         pollIntervalRef (fst (run s0 (es1 @ [StatusSettled j settled]))) = None"
proof -
  have "ref_owns (job_id body) (fst (run s0 es1))"
    using assms(1,2) by (rule run_ref_owns)
  moreover from assms(3) have "getProcessStatus settled = Inl err \<or>
      (getProcessStatus settled = Inr st \<and>
       (status st = Some ''completed'' \<or> status st = Some ''error''))"
    by (auto simp: getProcessStatus_def)
  ultimately show ?thesis
    using poll_stops [of "job_id body" "fst (run s0 es1)" "getProcessStatus settled" err st]
    by (simp add: run_snoc_fst)
qed

text \<open>
  While one job at a time is polled, a terminal snapshot stops the polling. Take a job
  whose identifier no live timer polls yet, started by a settled start request, and let
  any events follow in which no other start settles. Once \<open>poll\<close> handles a snapshot
  whose status is \<open>completed\<close> or \<open>error\<close>, \<open>pollIntervalRef.current\<close> is null, no
  live timer polls the job, and no further status request for it is sent.
\<close>

lemma single_job_terminal_stops_polling:
  assumes "\<not> polled (job_id body) s0"
    and "\<forall>e \<in> set (es1 @ es2). \<not> starts_job e"
    and "status st = Some ''completed'' \<or> status st = Some ''error''"
  shows "let j = job_id body;
             s1 = fst (run s0 (StartSettled (Inr \<lparr>data = body\<rparr>) # es1 @
                                 [StatusSettled j (Inr \<lparr>data = st\<rparr>)]));
             (s2, sent2) = run s1 es2
         in pollIntervalRef s1 = None \<and> \<not> polled j s1 \<and>
            \<not> polled j s2 \<and> getProcessStatus_request j \<notin> set sent2"
proof -
  define sa where "sa = fst (step s0 (StartSettled (Inr \<lparr>data = body\<rparr>)))"
  define s1 where "s1 = fst (run sa (es1 @ [StatusSettled (job_id body) (Inr \<lparr>data = st\<rparr>)]))"
  have "ref_owns (job_id body) sa"
    unfolding sa_def using assms(1) by (rule start_ref_owns)
  with assms(2,3) have stopped: "\<not> polled (job_id body) s1 \<and> pollIntervalRef s1 = None"
    unfolding s1_def by (intro poll_stop_state) auto
  with assms(2) have "\<not> polled (job_id body) (fst (run s1 es2)) \<and>
      getProcessStatus_request (job_id body) \<notin> set (snd (run s1 es2))"
    by (intro run_unpolled) auto
  with stopped show ?thesis
    by (simp add: run_Cons_fst s1_def sa_def split_beta Let_def)
qed

text \<open>
  Likewise for a rejected status request: nothing is sent, the error
  \<open>Lost connection to processing job\<close> is stored and shown, loading ends, and no
  further status request for the job is sent.
\<close>

lemma single_job_failed_poll_stops_polling:
  assumes "\<not> polled (job_id body) s0"
    and "\<forall>e \<in> set (es1 @ es2). \<not> starts_job e"
  shows "let j = job_id body;
             s = fst (run s0 (StartSettled (Inr \<lparr>data = body\<rparr>) # es1));
             (s1, sent1) = step s (StatusSettled j (Inl err));
             (s2, sent2) = run s1 es2
         in sent1 = [] \<and> pollIntervalRef s1 = None \<and> \<not> polled j s1 \<and>
            app_error s1 = Some ''Lost connection to processing job'' \<and> \<not> loading s1 \<and>
            shown_error s1 = Some ''Lost connection to processing job'' \<and>
            \<not> polled j s2 \<and> getProcessStatus_request j \<notin> set sent2"
proof -
  define sa where "sa = fst (step s0 (StartSettled (Inr \<lparr>data = body\<rparr>)))"
  define s where "s = fst (run sa es1)"
  define s1 where "s1 = fst (step s (StatusSettled (job_id body) (Inl err)))"
  have "ref_owns (job_id body) sa"
    unfolding sa_def using assms(1) by (rule start_ref_owns)
  with assms(2) have "\<not> polled (job_id body) (fst (run sa (es1 @ [StatusSettled (job_id body) (Inl err)]))) \<and>
         pollIntervalRef (fst (run sa (es1 @ [StatusSettled (job_id body) (Inl err)]))) = None"
    by (intro poll_stop_state) auto
  then have stopped: "\<not> polled (job_id body) s1 \<and> pollIntervalRef s1 = None"
    by (simp add: s1_def s_def run_snoc_fst)
  with assms(2) have later: "\<not> polled (job_id body) (fst (run s1 es2)) \<and>
      getProcessStatus_request (job_id body) \<notin> set (snd (run s1 es2))"
    by (intro run_unpolled) auto
  have shown: "app_error s1 = Some ''Lost connection to processing job'' \<and> \<not> loading s1"
    by (simp add: s1_def poll_def getProcessStatus_def)
  then have "shown_error s1 = Some ''Lost connection to processing job''"
    by (simp add: shown_error_def)
  with stopped later shown show ?thesis
    by (simp add: run_Cons_fst s1_def s_def sa_def split_beta Let_def)
qed

subsection \<open>Requests sent and results stored\<close>

lemma str_or_nonempty: "d \<noteq> [] \<Longrightarrow> str_or v d \<noteq> []"
  by (simp add: str_or_def split: option.splits)


lemma step_requests:
  "r \<in> set (snd (step s e)) \<Longrightarrow>
   (\<exists>f. e = Upload f \<and> r = startProcessJob_request f) \<or> (\<exists>j. r = getProcessStatus_request j)"
proof (cases e)
  case (Upload f)
  assume "r \<in> set (snd (step s e))"
  with Upload show ?thesis by (simp add: handleFileUpload_begin_def)
next
  case (StartSettled settled)
  assume "r \<in> set (snd (step s e))"
  with StartSettled show ?thesis
    by (auto simp: handleFileUpload_resume_def startProcessJob_def Let_def setInterval_def
        split: sum.splits js_error.splits)
next
  case (Tick t)
  assume "r \<in> set (snd (step s e))"
  with Tick show ?thesis
    by (auto simp: tick_def split: if_splits option.splits)
next
  case (StatusSettled j settled)
  assume "r \<in> set (snd (step s e))"
  with StatusSettled show ?thesis by simp
qed

lemma run_requests:
  "r \<in> set (snd (run s es)) \<Longrightarrow>
   (\<exists>f. Upload f \<in> set es \<and> r = startProcessJob_request f) \<or> (\<exists>j. r = getProcessStatus_request j)"
proof (induction es arbitrary: s)
  case Nil
  then show ?case by simp
next
  case (Cons e es)
  then have "r \<in> set (snd (step s e)) \<or> r \<in> set (snd (run (fst (step s e)) es))"
    by (simp add: split_beta)
  then show ?case
  proof
    assume "r \<in> set (snd (step s e))"
    from step_requests [OF this] show ?thesis by auto
  next
    assume "r \<in> set (snd (run (fst (step s e)) es))"
    from Cons.IH [OF this] show ?thesis by auto
  qed
qed



subsection \<open>Submission, and the files that reach it\<close>





lemma handleFile_pdf:
  "pdf_selected st \<Longrightarrow> pdf_selected (fst (handleFile g st)) \<and> snd (handleFile g st) \<noteq> [OnUpload h]
     \<and> OnUpload h \<notin> set (snd (handleFile g st))"
  by (simp add: handleFile_def pdf_selected_def)

lemma upload_step_pdf:
  assumes "pdf_selected st"
  shows "pdf_selected (fst (upload_step st e)) \<and>
         (\<forall>g. OnUpload g \<in> set (snd (upload_step st e)) \<longrightarrow> file_type g = ''application/pdf'')"
proof (cases e)
  case (Drag etype)
  with assms show ?thesis
    by (simp add: handleDrag_def pdf_selected_def)
next
  case (Drop files)
  have "pdf_selected (st\<lparr>dragActive := False\<rparr>)"
    using assms by (simp add: pdf_selected_def)
  from handleFile_pdf [OF this] Drop this show ?thesis
    by (auto simp: handleDrop_def Let_def split: option.splits list.splits)
next
  case (Change files)
  with handleFile_pdf [OF assms] assms show ?thesis
    by (auto simp: handleChange_def split: option.splits list.splits)
next
  case (ClickProcess loading_prop)
  with assms show ?thesis
    by (auto simp: handleUpload_def pdf_selected_def split: option.splits)
qed

lemma upload_run_pdf:
  "pdf_selected st \<Longrightarrow> OnUpload g \<in> set (snd (upload_run st es)) \<Longrightarrow>
   file_type g = ''application/pdf''"
proof (induction es arbitrary: st)
  case Nil
  then show ?case by simp
next
  case (Cons e es)
  from upload_step_pdf [OF Cons.prems(1), of e]
  have inv: "pdf_selected (fst (upload_step st e))"
    and here: "OnUpload g \<in> set (snd (upload_step st e)) \<Longrightarrow> file_type g = ''application/pdf''"
    by simp_all
  from Cons.prems(2)
  have "OnUpload g \<in> set (snd (upload_step st e)) \<or>
        OnUpload g \<in> set (snd (upload_run (fst (upload_step st e)) es))"
    by (simp add: split_beta)
  then show ?case
    using here Cons.IH [OF inv] by blast
qed

lemma startProcessJob_request_inj:
  "startProcessJob_request g = startProcessJob_request f \<longleftrightarrow> g = f"
  by (simp add: startProcessJob_request_def)

subsection \<open>Evaluation on the example inputs\<close>

lemma ex_hits:
  "hit \<lparr>px = 75, py = 75\<rparr> ex_poly1" "hit \<lparr>px = 75, py = 75\<rparr> ex_poly2"
  by (simp_all add: hit_def polygon_coords_def isPointInPolygonPdf_def ex_poly1_def ex_poly2_def)

lemma ex_polling_state:
  "ex_polling =
     \<lparr>app_results = None, loading = True, app_error = None,
      app_progress = \<lparr>currentSheet = 0, totalSheets = 0, progress_status = ''running''\<rparr>,
      pollIntervalRef = Some 1, timers = [Some ''job-1'']\<rparr>"
  by (simp add: ex_polling_def app_initial_def handleFileUpload_begin_def
      handleFileUpload_resume_def startProcessJob_def setInterval_def ex_body_def Let_def)

lemma ex_overlap_run:
  "run app_initial ex_overlap =
     (\<lparr>app_results = None, loading = True, app_error = None,
       app_progress = \<lparr>currentSheet = 0, totalSheets = 0, progress_status = ''running''\<rparr>,
       pollIntervalRef = Some 3, timers = [None, Some ''job-1'', Some ''job-2'']\<rparr>,
      [startProcessJob_request ex_pdf, getProcessStatus_request ''job-0'',
       getProcessStatus_request ''job-0'', startProcessJob_request ex_pdf,
       startProcessJob_request ex_pdf, getProcessStatus_request ''job-1'',
       getProcessStatus_request ''job-2''])"
  by (simp add: ex_overlap_def app_initial_def handleFileUpload_begin_def
      handleFileUpload_resume_def startProcessJob_def getProcessStatus_def setInterval_def
      clearInterval_def stop_polling_def poll_def tick_def num_or_def str_or_def Let_def
      ex_body_def ex_body0_def ex_body2_def ex_completed_def ex_completed0_def)


section \<open>The claims\<close>

text \<open>
  Claim C1. When a status request settles with a snapshot, \<open>poll\<close> ties the stored
  result and error to the snapshot's status: the stored result changes only if the
  status is \<open>completed\<close> and the snapshot carries a result (which is then stored and
  shown); the stored error changes only if the status is \<open>error\<close> (the message, or
  \<open>Processing failed\<close>, is then stored and shown); with any other status the new state
  is the old one with the progress replaced, so neither the result nor the error, stored
  or shown, changes.
\<close>

theorem poll_ties_result_and_error_to_status:
  "let s1 = poll (Inr st) s;
       progressed = s\<lparr>app_progress :=
                   \<lparr>currentSheet = num_or (current_sheet st) 0,
                    totalSheets = num_or (total_sheets st) 0,
                    progress_status = str_or (status st) ''unknown''\<rparr>\<rparr>
   in (app_results s1 \<noteq> app_results s \<longrightarrow>
         status st = Some ''completed'' \<and> result st \<noteq> None \<and> app_results s1 = result st) \<and>
      (app_error s1 \<noteq> app_error s \<longrightarrow> status st = Some ''error'') \<and>
      (status st = Some ''completed'' \<longrightarrow>
         (\<forall>r. result st = Some r \<longrightarrow> app_results s1 = Some r \<and> shown_results s1 = Some r) \<and>
         app_error s1 = app_error s) \<and>
      (status st = Some ''error'' \<longrightarrow>
         app_error s1 = Some (str_or (error st) ''Processing failed'') \<and>
         shown_error s1 = Some (str_or (error st) ''Processing failed'') \<and>
         app_results s1 = app_results s) \<and>
      (status st \<noteq> Some ''completed'' \<and> status st \<noteq> Some ''error'' \<longrightarrow>
         s1 = progressed \<and> shown_results s1 = shown_results s \<and> shown_error s1 = shown_error s)"
proof -
  consider (completed) "status st = Some ''completed''"
    | (error) "status st = Some ''error''"
    | (other) "status st \<noteq> Some ''completed''" "status st \<noteq> Some ''error''"
    by blast
  then show ?thesis
  proof cases
    case completed
    then show ?thesis
      by (cases "result st")
        (simp_all add: poll_def Let_def stop_polling_fields shown_results_def)
  next
    case error
    have "str_or (error st) ''Processing failed'' \<noteq> []"
      by (rule str_or_nonempty) simp
    with error show ?thesis
      by (simp add: poll_def Let_def stop_polling_fields shown_error_def)
  next
    case other
    then show ?thesis
      by (simp add: poll_def Let_def shown_results_def shown_error_def)
  qed
qed

text \<open>The statement of claim C1 on the example inputs.\<close>

theorem poll_ties_result_and_error_to_status_witness:
  "status ex_completed = Some ''completed'' \<and> result ex_completed = Some ex_results \<and>
   app_results (poll (Inr ex_completed) ex_polling) = Some ex_results \<and>
   shown_results (poll (Inr ex_completed) ex_polling) = Some ex_results \<and>
   status ex_failed = Some ''error'' \<and>
   shown_error (poll (Inr ex_failed) ex_polling) = Some ''Poppler not found'' \<and>
   app_results (poll (Inr ex_failed) ex_polling) = None \<and>
   status ex_running = Some ''running'' \<and>
   poll (Inr ex_running) ex_polling =
     ex_polling\<lparr>app_progress :=
       \<lparr>currentSheet = 1, totalSheets = 3, progress_status = ''running''\<rparr>\<rparr>"
  using poll_ties_result_and_error_to_status [of ex_completed ex_polling]
    poll_ties_result_and_error_to_status [of ex_failed ex_polling]
    poll_ties_result_and_error_to_status [of ex_running ex_polling]
  by (simp add: Let_def ex_completed_def ex_failed_def ex_running_def num_or_def str_or_def
      ex_polling_state)

text \<open>
  Claim C2. \<open>completed\<close> and \<open>error\<close> are terminal, and \<open>poll\<close> is written to stop
  the polling of the job on either. It does so while one job at a time is polled
  (\<open>single_job_terminal_stops_polling\<close>), but not in every run: \<open>App\<close> has one
  \<open>pollIntervalRef\<close> for all jobs, and \<open>handleFileUpload\<close> overwrites it without
  clearing the timer it held. \<open>ex_overlap\<close> is a run the browser can produce in which
  the starts of job-1 and job-2 both settle. The \<open>completed\<close> snapshot of job-1 then
  clears the timer of job-2; the timer of job-1 stays registered, and its next tick
  sends a further status request for job-1.
\<close>

theorem overlapping_submission_keeps_polling:
  "possible app_initial []
     (ex_overlap @ [StatusSettled ''job-1'' (Inr \<lparr>data = ex_completed\<rparr>), Tick 2]) \<and>
   status ex_completed = Some ''completed'' \<and>
   (let s = fst (run app_initial ex_overlap);
        s1 = fst (step s (StatusSettled ''job-1'' (Inr \<lparr>data = ex_completed\<rparr>) :: unit event))
    in timers s = [None, Some ''job-1'', Some ''job-2''] \<and> pollIntervalRef s = Some 3 \<and>
       timers s1 = [None, Some ''job-1'', None] \<and> pollIntervalRef s1 = None \<and>
       polled ''job-1'' s1 \<and>
       step s1 (Tick 2 :: unit event) = (s1, [getProcessStatus_request ''job-1'']))"
proof -
  have feasible: "possible app_initial []
     (ex_overlap @ [StatusSettled ''job-1'' (Inr \<lparr>data = ex_completed\<rparr>), Tick 2])"
    by (simp add: ex_overlap_def app_initial_def handleFileUpload_begin_def
        handleFileUpload_resume_def startProcessJob_def getProcessStatus_def
        startProcessJob_request_def getProcessStatus_request_def setInterval_def
        clearInterval_def stop_polling_def poll_def tick_def num_or_def str_or_def Let_def
        ex_body_def ex_body0_def ex_body2_def ex_completed_def ex_completed0_def)
  show ?thesis
    unfolding ex_overlap_run fst_conv
    by (simp add: feasible)
      (simp add: ex_completed_def getProcessStatus_def poll_def stop_polling_def
        clearInterval_def tick_def polled_def num_or_def str_or_def Let_def)
qed

text \<open>
  Claim C3. The content produced by \<open>downloadCSV\<close> is the header followed by exactly
  one line per element of the flat \<open>polygons\<close> list of the result, in list order, none
  omitted or repeated; it is the same whatever the sheet, type and review filters are;
  and each line carries the polygon's id, sheet, type and area, and a Perimeter Type
  that is \<open>Impervious\<close> exactly when the type is concrete, asphalt or building, and
  \<open>Pervious\<close> otherwise.
\<close>

theorem csv_one_line_per_polygon:
  "snd (downloadCSV num st res) = csv_header @ concat (map (csv_line num) (polygons res)) \<and>
   snd (downloadCSV num st res) = snd (downloadCSV num st' res) \<and>
   csv_line num poly =
     poly_id poly @ '','' @ num (sheet poly) @ '','' @ poly_type poly @ '','' @
     num (area_sqft poly) @ '','' @
     (if poly_type poly = ''concrete'' \<or> poly_type poly = ''asphalt'' \<or> poly_type poly = ''building''
      then ''Impervious'' else ''Pervious'') @ [CHR 0x0A]"
proof (intro conjI)
  show "snd (downloadCSV num st res) = csv_header @ concat (map (csv_line num) (polygons res))"
    by (simp add: downloadCSV_def Let_def fold_append_lines)
  show "snd (downloadCSV num st res) = snd (downloadCSV num st' res)"
    by (simp add: downloadCSV_def)
  show "csv_line num poly =
     poly_id poly @ '','' @ num (sheet poly) @ '','' @ poly_type poly @ '','' @
     num (area_sqft poly) @ '','' @
     (if poly_type poly = ''concrete'' \<or> poly_type poly = ''asphalt'' \<or> poly_type poly = ''building''
      then ''Impervious'' else ''Pervious'') @ [CHR 0x0A]"
    by (simp add: csv_line_def perimeterType_def)
qed

text \<open>The statement of claim C3 on the example inputs.\<close>

theorem csv_one_line_per_polygon_witness:
  "downloadCSV ex_num ex_panel ex_results =
     (''site_results.csv'',
      csv_header @
      ''S1-P1,1,concrete,250,Impervious'' @ [CHR 0x0A] @
      ''S1-P2,1,gravel,60,Pervious'' @ [CHR 0x0A] @
      ''S1-P3,1,water,60,Pervious'' @ [CHR 0x0A]) \<and>
   filteredPolygons ex_panel ex_results = []"
proof -
  have name: "fst (downloadCSV ex_num ex_panel ex_results) = ''site_results.csv''"
    by (simp add: downloadCSV_def ex_results_def Let_def)
  have lines: "map (csv_line ex_num) (polygons ex_results) =
      [''S1-P1,1,concrete,250,Impervious'' @ [CHR 0x0A],
       ''S1-P2,1,gravel,60,Pervious'' @ [CHR 0x0A],
       ''S1-P3,1,water,60,Pervious'' @ [CHR 0x0A]]"
    by (simp add: csv_line_def perimeterType_def ex_results_def ex_poly1_def ex_poly2_def
        ex_poly3_def ex_num_def)
  have none: "filteredPolygons ex_panel ex_results = []"
    by (simp add: filteredPolygons_def ex_panel_def ex_results_def ex_poly1_def ex_poly2_def
        ex_poly3_def Let_def)
  show ?thesis
    using csv_one_line_per_polygon [of ex_num ex_panel ex_results ex_panel ex_poly1] name none
    by (simp add: lines prod_eq_iff)
qed

text \<open>
  Claim C4. For a polygon as the Quality Analyzer delivers it, \<open>review_needed\<close> is
  true iff \<open>review_reasons\<close> is non-empty, which is the case iff one of the five rules
  matches. Hence the detail card of \<open>PlanViewer\<close> and the polygon card of
  \<open>ResultsPanel\<close> list the reasons, at least one, exactly when the flag is true, and
  render no reasons when it is false.
\<close>

theorem review_flag_iff_reasons:
  "let p1 = quality_analyze stats p; reasons = quality_reasons stats p
   in review_reasons p1 = Some reasons \<and>
      (review_needed p1 \<longleftrightarrow> reasons \<noteq> []) \<and>
      (review_needed p1 \<longleftrightarrow>
         area_sqft p < 100 \<or> area_sqft p > 50000 \<or> compactness p < 15 / 100 \<or>
         vertex_count p > 50 \<or>
         (sheet_count stats \<ge> 10 \<and> \<bar>area_sqft p - sheet_mean stats\<bar> > 3 * sheet_stdev stats)) \<and>
      detail_card_review p1 = Inr (if review_needed p1 then Some reasons else None) \<and>
      polygon_card_reasons p1 = (if review_needed p1 then Some reasons else None) \<and>
      polygon_card_badge p1 = review_needed p1"
proof -
  have "quality_reasons stats p \<noteq> [] \<longleftrightarrow>
         area_sqft p < 100 \<or> area_sqft p > 50000 \<or> compactness p < 15 / 100 \<or>
         vertex_count p > 50 \<or>
         (sheet_count stats \<ge> 10 \<and> \<bar>area_sqft p - sheet_mean stats\<bar> > 3 * sheet_stdev stats)"
    unfolding quality_reasons_def by simp
  then show ?thesis
    by (simp add: quality_analyze_def Let_def detail_card_review_def polygon_card_reasons_def
        polygon_card_badge_def)
qed

text \<open>The statement of claim C4 on the example inputs.\<close>

theorem review_flag_iff_reasons_witness:
  "quality_analyze ex_stats ex_poly2 =
     ex_poly2\<lparr>review_reasons := Some [''very small area''], review_needed := True\<rparr> \<and>
   detail_card_review (quality_analyze ex_stats ex_poly2) = Inr (Some [''very small area'']) \<and>
   polygon_card_reasons (quality_analyze ex_stats ex_poly2) = Some [''very small area''] \<and>
   review_needed (quality_analyze ex_stats ex_poly1) = False \<and>
   detail_card_review (quality_analyze ex_stats ex_poly1) = Inr None \<and>
   polygon_card_reasons (quality_analyze ex_stats ex_poly1) = None"
proof -
  have r2: "quality_reasons ex_stats ex_poly2 = [''very small area'']"
    by (simp add: quality_reasons_def ex_stats_def ex_poly2_def)
  have r1: "quality_reasons ex_stats ex_poly1 = []"
    by (simp add: quality_reasons_def ex_stats_def ex_poly1_def)
  have q2: "quality_analyze ex_stats ex_poly2 =
     ex_poly2\<lparr>review_reasons := Some [''very small area''], review_needed := True\<rparr>"
    by (simp add: quality_analyze_def r2)
  show ?thesis
    using review_flag_iff_reasons [of ex_stats ex_poly2]
      review_flag_iff_reasons [of ex_stats ex_poly1] q2
    by (simp add: Let_def r1 r2)
qed

text \<open>
  Claim C5. There is no automatic retry: the \<open>catch\<close> branch of \<open>poll\<close> is written to
  stop the polling of the job and show \<open>Lost connection to processing job\<close>. It does
  so while one job at a time is polled (\<open>single_job_failed_poll_stops_polling\<close>), but
  not in every run, for the reason given under claim C2. After \<open>ex_overlap\<close>, when a
  status request of job-1 is rejected, the error is stored and the timer of job-2 is
  cleared; the timer of job-1 stays registered, and its next tick sends the status
  request for job-1 again.
\<close>

theorem overlapping_submission_retries_after_failure:
  "possible app_initial []
     (ex_overlap @ [StatusSettled ''job-1'' (Inl (Error ''Network Error'')), Tick 2]) \<and>
   (let s = fst (run app_initial ex_overlap);
        s1 = fst (step s (StatusSettled ''job-1'' (Inl (Error ''Network Error'')) :: unit event))
    in timers s = [None, Some ''job-1'', Some ''job-2''] \<and> pollIntervalRef s = Some 3 \<and>
       app_error s1 = Some ''Lost connection to processing job'' \<and>
       timers s1 = [None, Some ''job-1'', None] \<and> pollIntervalRef s1 = None \<and>
       polled ''job-1'' s1 \<and>
       step s1 (Tick 2 :: unit event) = (s1, [getProcessStatus_request ''job-1'']))"
proof -
  have feasible: "possible app_initial []
     (ex_overlap @ [StatusSettled ''job-1'' (Inl (Error ''Network Error'')), Tick 2])"
    by (simp add: ex_overlap_def app_initial_def handleFileUpload_begin_def
        handleFileUpload_resume_def startProcessJob_def getProcessStatus_def
        startProcessJob_request_def getProcessStatus_request_def setInterval_def
        clearInterval_def stop_polling_def poll_def tick_def num_or_def str_or_def Let_def
        ex_body_def ex_body0_def ex_body2_def ex_completed_def ex_completed0_def)
  show ?thesis
    unfolding ex_overlap_run fst_conv
    by (simp add: feasible)
      (simp add: getProcessStatus_def poll_def stop_polling_def
        clearInterval_def tick_def polled_def Let_def)
qed

text \<open>
  Claim C6. A file whose MIME type is not \<open>application/pdf\<close> is rejected by
  \<open>handleFile\<close>: the state, and with it the selected file, stays as it was and the
  only effect is the alert. Hence, whatever the user does with the component from its
  initial state, \<open>onUpload\<close> is never called with that file; and when \<open>App\<close> runs
  \<open>handleFileUpload\<close> only on files passed to \<open>onUpload\<close>, no start request for
  that file is ever sent.
\<close>

theorem non_pdf_never_starts_a_job:
  assumes "file_type f \<noteq> ''application/pdf''"
    and "\<forall>g. Upload g \<in> set aes \<longrightarrow> OnUpload g \<in> set (snd (upload_run upload_initial es))"
  shows "handleFile f st = (st, [Alert ''Please upload a PDF file'']) \<and>
         OnUpload f \<notin> set (snd (upload_run upload_initial es)) \<and>
         startProcessJob_request f \<notin> set (snd (run s aes))"
proof -
  have "pdf_selected upload_initial"
    by (simp add: pdf_selected_def upload_initial_def)
  from upload_run_pdf [OF this] assms(1)
  have never: "OnUpload f \<notin> set (snd (upload_run upload_initial es))"
    by blast
  have "startProcessJob_request f \<notin> set (snd (run s aes))"
  proof
    assume "startProcessJob_request f \<in> set (snd (run s aes))"
    from run_requests [OF this]
    have "Upload f \<in> set aes"
      by (auto simp: startProcessJob_request_inj request_neq)
    with assms(2) never show False by blast
  qed
  with never assms(1) show ?thesis
    by (simp add: handleFile_def)
qed

text \<open>The statement of claim C6 on the example inputs.\<close>

theorem non_pdf_never_starts_a_job_witness:
  "file_type ex_png \<noteq> ''application/pdf'' \<and>
   snd (upload_run upload_initial
          [Drop (Some [ex_png]), ClickProcess False, Change (Some [ex_pdf]), ClickProcess False]) =
     [Alert ''Please upload a PDF file'', OnUpload ex_pdf] \<and>
   startProcessJob_request ex_png \<notin>
     set (snd (run app_initial [Upload ex_pdf, Tick 1 :: unit event]))"
proof -
  have png: "file_type ex_png \<noteq> ''application/pdf''"
    by (simp add: ex_png_def)
  have effs: "snd (upload_run upload_initial
          [Drop (Some [ex_png]), ClickProcess False, Change (Some [ex_pdf]), ClickProcess False]) =
     [Alert ''Please upload a PDF file'', OnUpload ex_pdf]"
    by (simp add: upload_initial_def handleDrop_def handleChange_def handleFile_def
        handleUpload_def ex_png_def ex_pdf_def Let_def)
  have from_ui: "\<forall>g. Upload g \<in> set [Upload ex_pdf, Tick 1 :: unit event] \<longrightarrow>
      OnUpload g \<in> set (snd (upload_run upload_initial
          [Drop (Some [ex_png]), ClickProcess False, Change (Some [ex_pdf]), ClickProcess False]))"
    unfolding effs by simp
  show ?thesis
    using non_pdf_never_starts_a_job [OF png from_ui, of upload_initial app_initial] png effs
    by simp
qed




text \<open>
  Claim C8. The coordinate maps of \<open>PlanViewer\<close> are mutually inverse over the
  rationals: for positive view width and height and positive page width and height,
  \<open>mapScreenToPdf\<close> applied to \<open>mapPdfToScreen\<close> of a point gives the point back, the
  flip of the Y axis included; and when the view width or height is zero both maps return
  the origin.
\<close>

theorem coordinate_maps_inverse:
  "(0 < width (viewDimensions v) \<and> 0 < height (viewDimensions v) \<and> 0 < pdfWidth sh \<and> 0 < pdfHeight sh \<longrightarrow>
      (let s = mapPdfToScreen sh (width (viewDimensions v)) (height (viewDimensions v)) pdfX pdfY
       in mapScreenToPdf sh v (px s) (py s)) = \<lparr>px = pdfX, py = pdfY\<rparr>) \<and>
   (width (viewDimensions v) = 0 \<or> height (viewDimensions v) = 0 \<longrightarrow>
      mapPdfToScreen sh (width (viewDimensions v)) (height (viewDimensions v)) pdfX pdfY = \<lparr>px = 0, py = 0\<rparr> \<and>
      mapScreenToPdf sh v screenX screenY = \<lparr>px = 0, py = 0\<rparr>)"
  by (auto simp: mapPdfToScreen_def mapScreenToPdf_def Let_def)

text \<open>The statement of claim C8 on the example inputs.\<close>

theorem coordinate_maps_inverse_witness:
  "0 < width (viewDimensions ex_viewer) \<and> 0 < height (viewDimensions ex_viewer) \<and>
   0 < pdfWidth ex_sheet \<and> 0 < pdfHeight ex_sheet \<and>
   mapPdfToScreen ex_sheet 306 396 75 75 = \<lparr>px = 75 / 2, py = 717 / 2\<rparr> \<and>
   mapScreenToPdf ex_sheet ex_viewer (75 / 2) (717 / 2) = \<lparr>px = 75, py = 75\<rparr>"
proof -
  have dims: "width (viewDimensions ex_viewer) = 306" "height (viewDimensions ex_viewer) = 396"
    by (simp_all add: ex_viewer_def)
  have page: "pdfWidth ex_sheet = 612" "pdfHeight ex_sheet = 792"
    by (simp_all add: pdfWidth_def pdfHeight_def or_default_def ex_sheet_def)
  have there: "mapPdfToScreen ex_sheet 306 396 75 75 = \<lparr>px = 75 / 2, py = 717 / 2\<rparr>"
    by (simp add: mapPdfToScreen_def page Let_def)
  show ?thesis
    using coordinate_maps_inverse [of ex_viewer ex_sheet 75 75 0 0]
    by (simp add: dims page there)
qed

text \<open>
  Claim C9. A polygon whose type is none of building, concrete, asphalt, pervious, water
  is meant to be drawn with the pervious colours, which is what the fallback in
  \<open>drawCanvas\<close> is written for, and \<open>downloadCSV\<close> gives Perimeter Type \<open>Pervious\<close>
  to every polygon whose type is none of concrete, asphalt, building, a water polygon
  included (\<open>csv_pervious_outside_impervious\<close>). The drawing does so for every such
  type but the names of inherited members (\<open>pervious_unless_inherited\<close>). For the type
  \<open>constructor\<close> the read of \<open>SURFACE_COLORS\<close> is truthy and the fallback is not
  taken: the fill, the stroke and the label are \<^verbatim>\<open>undefined\<close> where a polygon of type
  pervious gets the pervious ones, and once the polygon is hovered \<open>drawCanvas\<close>
  throws, so that the polygons after it are not drawn.
\<close>

theorem inherited_name_is_not_pervious:
  "poly_type ex_poly4 = ''constructor'' \<and>
   poly_type ex_poly4 \<notin> {''building'', ''concrete'', ''asphalt'', ''pervious'', ''water''} \<and>
   polygon_colors ex_poly4 = Inherited \<and>
   polygon_colors (ex_poly4\<lparr>poly_type := ''pervious''\<rparr>) = Own SURFACE_COLORS_pervious \<and>
   draw_polygon ex_sheet 306 396 ex_viewer None ex_poly4 =
     Inr (Some \<lparr>path = [\<lparr>px = 25, py = 371\<rparr>, \<lparr>px = 75, py = 371\<rparr>,
                        \<lparr>px = 75, py = 321\<rparr>, \<lparr>px = 25, py = 321\<rparr>],
                fillStyle = None, strokeStyle = None, lineWidth = 1, text_label = None\<rparr>) \<and>
   draw_polygon ex_sheet 306 396 ex_viewer None (ex_poly4\<lparr>poly_type := ''pervious''\<rparr>) =
     Inr (Some \<lparr>path = [\<lparr>px = 25, py = 371\<rparr>, \<lparr>px = 75, py = 371\<rparr>,
                        \<lparr>px = 75, py = 321\<rparr>, \<lparr>px = 25, py = 321\<rparr>],
                fillStyle = Some ''rgba(0, 200, 0, 0.3)'',
                strokeStyle = Some ''rgb(0, 200, 0)'', lineWidth = 1,
                text_label = Some ''Perv''\<rparr>) \<and>
   draw_polygon ex_sheet 306 396 (ex_viewer\<lparr>hoveredPolygon := Some ''S1-P4''\<rparr>) None ex_poly4 =
     Inl TypeError \<and>
   draw_polygons ex_sheet 306 396 (ex_viewer\<lparr>hoveredPolygon := Some ''S1-P4''\<rparr>) None
       [ex_poly4, ex_poly1] = Inl TypeError"
proof -
  have inherited: "polygon_colors ex_poly4 = Inherited"
    by (simp add: polygon_colors_def SURFACE_COLORS_get_def SURFACE_COLORS_def
        Object_prototype_keys_def ex_poly4_def ex_poly2_def)
  have pervious: "polygon_colors (ex_poly4\<lparr>poly_type := ''pervious''\<rparr>) = Own SURFACE_COLORS_pervious"
    by (rule polygon_colors_pervious)
  have coords: "polygon_coords ex_poly4 = Some [(50, 50), (150, 50), (150, 150), (50, 150)]"
    "polygon_coords (ex_poly4\<lparr>poly_type := ''pervious''\<rparr>) =
       Some [(50, 50), (150, 50), (150, 150), (50, 150)]"
    by (simp_all add: polygon_coords_def ex_poly4_def ex_poly2_def)
  have page: "pdfWidth ex_sheet = 612" "pdfHeight ex_sheet = 792"
    by (simp_all add: pdfWidth_def pdfHeight_def or_default_def ex_sheet_def)
  have ids: "poly_id ex_poly4 = ''S1-P4''" "poly_type ex_poly4 = ''constructor''"
    by (simp_all add: ex_poly4_def)
  have thrown: "draw_polygon ex_sheet 306 396 (ex_viewer\<lparr>hoveredPolygon := Some ''S1-P4''\<rparr>) None
      ex_poly4 = Inl TypeError"
    by (simp add: draw_polygon_def inherited coords ids Let_def)
  show ?thesis
    by (simp add: thrown inherited pervious)
      (simp add: draw_polygon_def inherited pervious coords ids page toScreen_def Let_def
        SURFACE_COLORS_pervious_def ex_viewer_def)
qed

text \<open>
  Claim C10. A click on the mounted canvas is resolved in list order: with the click
  mapped to PDF space, \<open>handleCanvasClick\<close> takes the first polygon of
  \<open>sheet.polygons\<close> that has coordinates and contains the point by the ray-casting
  test; it selects that polygon, or clears the selection if that polygon was the
  selected one, and reports the new selection to \<open>onPolygonSelect\<close> when that
  property is given. If no polygon contains the point the selection is cleared.
\<close>

theorem canvas_click_toggles_first_hit:
  "handleCanvasClick sh cb (Some r) v ev =
     (let pdfPt = mapScreenToPdf sh v (clientX ev - left r) (clientY ev - top r)
      in case find (hit pdfPt) (sheet_polygons sh) of
           None \<Rightarrow> (v\<lparr>selectedPolygon := None\<rparr>, [])
         | Some p \<Rightarrow>
             (let newSelection =
                    (if selectedPolygon v = Some (poly_id p) then None else Some (poly_id p))
              in (v\<lparr>selectedPolygon := newSelection\<rparr>, if cb then [newSelection] else [])))"
  by (simp add: handleCanvasClick_def click_loop_find Let_def)

text \<open>The statement of claim C10 on the example inputs.\<close>

theorem canvas_click_toggles_first_hit_witness:
  "handleCanvasClick ex_sheet True (Some ex_rect) ex_viewer ex_click =
     (ex_viewer\<lparr>selectedPolygon := Some ''S1-P1''\<rparr>, [Some ''S1-P1'']) \<and>
   handleCanvasClick ex_sheet True (Some ex_rect)
       (ex_viewer\<lparr>selectedPolygon := Some ''S1-P1''\<rparr>) ex_click =
     (ex_viewer\<lparr>selectedPolygon := None\<rparr>, [None])"
proof -
  have pt: "mapScreenToPdf ex_sheet v (clientX ex_click - left ex_rect)
      (clientY ex_click - top ex_rect) = \<lparr>px = 75, py = 75\<rparr>"
    if "viewDimensions v = viewDimensions ex_viewer" for v
    using that
    by (simp add: mapScreenToPdf_def pdfWidth_def pdfHeight_def or_default_def Let_def
        ex_sheet_def ex_viewer_def ex_click_def ex_rect_def)
  have first: "find (hit \<lparr>px = 75, py = 75\<rparr>) (sheet_polygons ex_sheet) = Some ex_poly1"
    by (simp add: ex_sheet_def ex_hits)
  have ids: "poly_id ex_poly1 = ''S1-P1''"
    by (simp add: ex_poly1_def)
  show ?thesis
    using canvas_click_toggles_first_hit [of ex_sheet True ex_rect ex_viewer ex_click]
      canvas_click_toggles_first_hit [of ex_sheet True ex_rect
        "ex_viewer\<lparr>selectedPolygon := Some ''S1-P1''\<rparr>" ex_click]
    by (simp add: pt first ids Let_def) (simp add: ex_viewer_def)
qed

end
